theory Spec2Isabelle
  imports Main "HOL-Library.Word"
begin

section \<open>JavaScript values used by the widget\<close>

text \<open>
  A JavaScript string is a sequence of 16-bit code units. String literals of the
  source are ASCII; \<open>js_lit\<close> turns a HOL literal into its code units.
\<close>

type_synonym code_unit = "16 word"
type_synonym jsstring = "code_unit list"

definition js_lit :: "string \<Rightarrow> jsstring" where
  "js_lit s = map (\<lambda>c. of_nat (of_char c)) s"

text \<open>
  \<open>String.prototype.trim\<close> strips the code units that ECMAScript calls WhiteSpace
  (TAB, VT, FF, ZWNBSP and the Unicode space separators) and LineTerminator
  (LF, CR, LS, PS) from both ends of the string.
\<close>

definition whitespace_units :: "code_unit list" where
  "whitespace_units =
     [0x0009, 0x000B, 0x000C, 0xFEFF,
      0x0020, 0x00A0, 0x1680,
      0x2000, 0x2001, 0x2002, 0x2003, 0x2004, 0x2005,
      0x2006, 0x2007, 0x2008, 0x2009, 0x200A,
      0x202F, 0x205F, 0x3000,
      0x000A, 0x000D, 0x2028, 0x2029]"

definition isWhiteSpace :: "code_unit \<Rightarrow> bool" where
  "isWhiteSpace c = List.member whitespace_units c"

definition trim :: "jsstring \<Rightarrow> jsstring" where
  "trim s = rev (dropWhile isWhiteSpace (rev (dropWhile isWhiteSpace s)))"

text \<open>
  The values a host global can hold (\<open>toolOutput\<close> is \<open>unknown\<close>, so any value).
  Numbers are kept to the integers (no NaN, no fractions); objects and functions are
  known by their reference only, which is all that strict equality and truthiness look
  at. What a function does when it is called is looked up under its reference, in a
  table of the functions (\<open>fun_env\<close> below).
\<close>

datatype js_value =
    JUndefined
  | JNull
  | JBool bool
  | JNum int
  | JStr jsstring
  | JObject nat
  | JFunction nat

text \<open>ToBoolean, as applied by \<open>if (...)\<close>.\<close>

fun truthy :: "js_value \<Rightarrow> bool" where
  "truthy JUndefined = False"
| "truthy JNull = False"
| "truthy (JBool b) = b"
| "truthy (JNum n) = (n \<noteq> 0)"
| "truthy (JStr s) = (s \<noteq> [])"
| "truthy (JObject r) = True"
| "truthy (JFunction r) = True"


section \<open>Host-global bridge\<close>

text \<open>The keys of the interface \<open>OpenAiGlobals\<close>.\<close>

datatype globals_key =
    ToolInput
  | ToolOutput
  | ToolResponseMetadata
  | Theme
  | DisplayMode
  | Locale
  | UserLocation

text \<open>
  An object with optional fields is a partial map from its keys to values: a key that
  is present may still hold \<open>JUndefined\<close>. Reading a property that is absent gives
  \<open>undefined\<close>; the operator \<open>in\<close> asks whether the key is present.
\<close>

type_synonym OpenAiGlobals = "globals_key \<rightharpoonup> js_value"

definition get_prop :: "OpenAiGlobals \<Rightarrow> globals_key \<Rightarrow> js_value" where
  "get_prop obj k = (case obj k of None \<Rightarrow> JUndefined | Some v \<Rightarrow> v)"

definition has_prop :: "globals_key \<Rightarrow> OpenAiGlobals \<Rightarrow> bool" where
  "has_prop k obj = (obj k \<noteq> None)"

text \<open>
  \<open>requestDisplayMode\<close> takes \<open>{ mode: "fullscreen" | "pip" }\<close> and returns a promise,
  which settles later as fulfilled or rejected.
\<close>

datatype request_mode = Fullscreen | Pip

datatype promise = Fulfilled | Rejected

text \<open>
  \<open>window.openai\<close>: the globals as direct properties, and the optional host function.
  \<open>window.openai\<close> itself is optional.
\<close>

record openai_host =
  globals :: OpenAiGlobals
  requestDisplayMode :: "(request_mode \<Rightarrow> promise) option"

record window =
  openai :: "openai_host option"

text \<open>
  Reading a property of \<open>undefined\<close> throws a TypeError; the optional chain \<open>?.\<close>
  gives \<open>undefined\<close> instead. Line 26 has both: \<open>window.openai?.[key]\<close> in the test
  and \<open>window.openai[key]\<close> in the call of \<open>setValue\<close>. \<open>Thrown\<close> is an exception that a
  function of the host throws when it is called.
\<close>

datatype error = TypeError | Thrown js_value

definition openai_index :: "window \<Rightarrow> globals_key \<Rightarrow> error + js_value" where
  "openai_index w key =
     (case openai w of None \<Rightarrow> Inl TypeError | Some h \<Rightarrow> Inr (get_prop (globals h) key))"

definition openai_opt_index :: "window \<Rightarrow> globals_key \<Rightarrow> js_value" where
  "openai_opt_index w key =
     (case openai w of None \<Rightarrow> JUndefined | Some h \<Rightarrow> get_prop (globals h) key)"

text \<open>
  The functions that values may refer to: called with one argument, a function returns
  a value or throws.
\<close>

type_synonym fun_env = "nat \<Rightarrow> js_value \<Rightarrow> error + js_value"

text \<open>
  \<open>setValue\<close>, the setter that \<open>useState\<close> returns (line 24). React stores the argument
  as the next state, unless the argument is a function: then React calls it with the
  state held so far and stores what it returns. \<open>prev\<close> is the state held so far; the
  result is the next state, or the exception of the function called.
\<close>

definition setValue :: "fun_env \<Rightarrow> js_value \<Rightarrow> js_value \<Rightarrow> error + js_value" where
  "setValue fns x prev = (case x of JFunction r \<Rightarrow> fns r prev | _ \<Rightarrow> Inr x)"

text \<open>
  \<open>useOpenAiGlobal\<close>, first part (lines 24 to 26): the state starts as \<open>undefined\<close>, and
  the effect calls \<open>setValue(window.openai[key])\<close> when \<open>window.openai?.[key]\<close> is truthy.
\<close>

definition useOpenAiGlobal_init :: "fun_env \<Rightarrow> window \<Rightarrow> globals_key \<Rightarrow> error + js_value" where
  "useOpenAiGlobal_init fns w key =
     (if truthy (openai_opt_index w key)
      then (case openai_index w key of
              Inl e \<Rightarrow> Inl e
            | Inr x \<Rightarrow> setValue fns x JUndefined)
      else Inr JUndefined)"

text \<open>
  \<open>useOpenAiGlobal\<close>, the listener (lines 27 to 30): \<open>payload\<close> is
  \<open>event.detail.globals\<close> and \<open>val\<close> the value held so far.
\<close>

definition handler :: "fun_env \<Rightarrow> globals_key \<Rightarrow> OpenAiGlobals \<Rightarrow> js_value \<Rightarrow> error + js_value" where
  "handler fns key payload val =
     (if has_prop key payload then setValue fns (get_prop payload key) val else Inr val)"

text \<open>The listener over a run of events, one after the other, from the value \<open>val\<close>.\<close>

fun run_events :: "fun_env \<Rightarrow> globals_key \<Rightarrow> js_value \<Rightarrow> OpenAiGlobals list \<Rightarrow> error + js_value" where
  "run_events fns key val [] = Inr val"
| "run_events fns key val (payload # rest) =
     (case handler fns key payload val of
        Inl e \<Rightarrow> Inl e
      | Inr val' \<Rightarrow> run_events fns key val' rest)"

text \<open>The hook over a run of events: what it holds after the mount and each event in turn.\<close>

definition useOpenAiGlobal :: "fun_env \<Rightarrow> window \<Rightarrow> globals_key \<Rightarrow> OpenAiGlobals list \<Rightarrow> error + js_value" where
  "useOpenAiGlobal fns w key events =
     (case useOpenAiGlobal_init fns w key of
        Inl e \<Rightarrow> Inl e
      | Inr val0 \<Rightarrow> run_events fns key val0 events)"

definition useTheme :: "fun_env \<Rightarrow> window \<Rightarrow> OpenAiGlobals list \<Rightarrow> error + js_value" where
  "useTheme fns w events = useOpenAiGlobal fns w Theme events"

definition useDisplayMode :: "fun_env \<Rightarrow> window \<Rightarrow> OpenAiGlobals list \<Rightarrow> error + js_value" where
  "useDisplayMode fns w events = useOpenAiGlobal fns w DisplayMode events"

section \<open>Todo view\<close>

text \<open>
  \<open>TodoItem\<close>; the fields \<open>id\<close> and \<open>text\<close> carry a prime, the plain names being taken.
  An id is a \<open>Date.now()\<close> reading, a whole number of milliseconds.
\<close>

record TodoItem =
  id' :: int
  text' :: jsstring
  completed :: bool

text \<open>The two pieces of view state of \<open>App\<close>.\<close>

record app_state =
  todos :: "TodoItem list"
  inputValue :: jsstring

definition initial_state :: app_state where
  "initial_state = \<lparr>todos = [], inputValue = []\<rparr>"

text \<open>\<open>addTodo\<close>; \<open>now\<close> is what \<open>Date.now()\<close> returns at the call.\<close>

definition addTodo :: "int \<Rightarrow> app_state \<Rightarrow> app_state" where
  "addTodo now st =
     (if trim (inputValue st) \<noteq> []
      then st\<lparr>todos := todos st @ [\<lparr>id' = now, text' = inputValue st, completed = False\<rparr>],
              inputValue := []\<rparr>
      else st)"

definition toggleTodo :: "int \<Rightarrow> app_state \<Rightarrow> app_state" where
  "toggleTodo i st =
     st\<lparr>todos := map (\<lambda>todo. if id' todo = i then todo\<lparr>completed := \<not> completed todo\<rparr> else todo)
                     (todos st)\<rparr>"

definition deleteTodo :: "int \<Rightarrow> app_state \<Rightarrow> app_state" where
  "deleteTodo i st = st\<lparr>todos := filter (\<lambda>todo. id' todo \<noteq> i) (todos st)\<rparr>"

text \<open>
  \<open>requestFullscreen\<close>: both links of the chain are optional, so an absent
  \<open>window.openai\<close> or an absent function ends the expression with no call. The promise
  the host returns is dropped. The result is the list of host calls made.
\<close>

datatype host_call = RequestDisplayMode request_mode

definition requestFullscreen :: "window \<Rightarrow> error + host_call list" where
  "requestFullscreen w =
     (case openai w of
        None \<Rightarrow> Inr []
      | Some h \<Rightarrow>
          (case requestDisplayMode h of
             None \<Rightarrow> Inr []
           | Some f \<Rightarrow> (let _ = f Fullscreen in Inr [RequestDisplayMode Fullscreen])))"

text \<open>
  What \<open>App\<close> renders, as far as it depends on the state: the dark styling branch, the
  "Expand" button, the placeholder of the empty list, and the two numbers of the footer.
\<close>

record view =
  darkMode :: bool
  expand_shown :: bool
  placeholder_shown :: bool
  remaining :: nat
  total :: nat

definition App :: "js_value \<Rightarrow> js_value \<Rightarrow> app_state \<Rightarrow> view" where
  "App theme displayMode st =
     \<lparr>darkMode = (theme = JStr (js_lit ''dark'')),
      expand_shown = (displayMode \<noteq> JStr (js_lit ''fullscreen'')),
      placeholder_shown = (length (todos st) = 0),
      remaining = length (filter (\<lambda>t. \<not> completed t) (todos st)),
      total = length (todos st)\<rparr>"

text \<open>
  The user's actions on the view: typing into the field (\<open>onChange\<close>), "Add" or Enter,
  a checkbox, a "Delete" button.
\<close>

datatype action =
    SetInputValue jsstring
  | AddTodo int
  | ToggleTodo int
  | DeleteTodo int

fun step :: "app_state \<Rightarrow> action \<Rightarrow> app_state" where
  "step st (SetInputValue s) = st\<lparr>inputValue := s\<rparr>"
| "step st (AddTodo now) = addTodo now st"
| "step st (ToggleTodo i) = toggleTodo i st"
| "step st (DeleteTodo i) = deleteTodo i st"

definition run :: "app_state \<Rightarrow> action list \<Rightarrow> app_state" where
  "run st acts = foldl step st acts"

text \<open>How many items of a list carry a given id.\<close>

definition count_id :: "int \<Rightarrow> TodoItem list \<Rightarrow> nat" where
  "count_id i ts = length (filter (\<lambda>todo. id' todo = i) ts)"

text \<open>Examples: a list where two items carry the same id, a host whose \<open>locale\<close> is the
  empty string, and a table in which every function returns its argument.\<close>

definition two_same_id :: app_state where
  "two_same_id =
     \<lparr>todos = [\<lparr>id' = 7, text' = js_lit ''a'', completed = False\<rparr>,
               \<lparr>id' = 8, text' = js_lit ''b'', completed = False\<rparr>,
               \<lparr>id' = 7, text' = js_lit ''c'', completed = True\<rparr>],
      inputValue = js_lit ''d''\<rparr>"

definition host_with_empty_locale :: window where
  "host_with_empty_locale =
     \<lparr>openai = Some \<lparr>globals = [Locale \<mapsto> JStr []], requestDisplayMode = None\<rparr>\<rparr>"


section \<open>Properties\<close>

subsection \<open>Auxiliary facts\<close>

lemma dropWhile_all_iff: "(\<forall>x\<in>set (dropWhile P xs). P x) \<longleftrightarrow> (\<forall>x\<in>set xs. P x)"
proof
  assume a: "\<forall>x\<in>set (dropWhile P xs). P x"
  have "dropWhile P xs = []"
  proof (rule ccontr)
    assume ne: "dropWhile P xs \<noteq> []"
    then have "\<not> P (hd (dropWhile P xs))" by (rule hd_dropWhile)
    moreover from ne have "hd (dropWhile P xs) \<in> set (dropWhile P xs)" by simp
    ultimately show False using a by blast
  qed
  then show "\<forall>x\<in>set xs. P x" by simp
next
  assume "\<forall>x\<in>set xs. P x"
  then show "\<forall>x\<in>set (dropWhile P xs). P x" by (meson set_dropWhileD)
qed

lemma trim_empty_iff: "trim s = [] \<longleftrightarrow> (\<forall>c\<in>set s. isWhiteSpace c)"
  by (simp add: trim_def dropWhile_all_iff)


lemma setValue_function: "setValue fns (JFunction r) prev = fns r prev"
  by (simp add: setValue_def)

lemma useOpenAiGlobal_init_eq:
  "useOpenAiGlobal_init fns w key =
     (if truthy (openai_opt_index w key)
      then setValue fns (openai_opt_index w key) JUndefined
      else Inr JUndefined)"
  by (auto simp: useOpenAiGlobal_init_def openai_index_def openai_opt_index_def
           split: option.splits)


lemma length_filter_id:
  "length (filter (\<lambda>todo. id' todo \<noteq> i) ts) + count_id i ts = length ts"
  unfolding count_id_def by (induction ts) auto

lemma remaining_plus_completed:
  "length (filter (\<lambda>t. \<not> completed t) ts) + length (filter completed ts) = length ts"
  by (induction ts) auto

subsection \<open>Adding\<close>

text \<open>
  C1. \<open>addTodo\<close>: when the trimmed input is non-empty, the new list is the old one with
  the single item \<open>{id: now, text: the raw input, completed: false}\<close> appended at the end, one
  item longer, and the input field is cleared; when the trimmed input is empty the state
  is unchanged. The trimmed input is empty exactly when the input is empty or consists
  of whitespace only.
\<close>

theorem addTodo_spec:
  "(trim (inputValue st) \<noteq> [] \<longrightarrow>
      todos (addTodo now st) =
        todos st @ [\<lparr>id' = now, text' = inputValue st, completed = False\<rparr>]
      \<and> length (todos (addTodo now st)) = length (todos st) + 1
      \<and> inputValue (addTodo now st) = [])
   \<and> (trim (inputValue st) = [] \<longrightarrow> addTodo now st = st)
   \<and> (trim (inputValue st) = [] \<longleftrightarrow> (\<forall>c\<in>set (inputValue st). isWhiteSpace c))"
  by (simp add: addTodo_def trim_empty_iff)

theorem addTodo_spec_witness:
  "todos (addTodo 1700000000000 \<lparr>todos = [], inputValue = js_lit '' Buy milk''\<rparr>)
     = [\<lparr>id' = 1700000000000, text' = js_lit '' Buy milk'', completed = False\<rparr>]
   \<and> inputValue (addTodo 1700000000000 \<lparr>todos = [], inputValue = js_lit '' Buy milk''\<rparr>) = []
   \<and> addTodo 1700000000000 \<lparr>todos = [], inputValue = js_lit ''  ''\<rparr>
       = \<lparr>todos = [], inputValue = js_lit ''  ''\<rparr>"
proof -
  have a: "trim (js_lit '' Buy milk'') \<noteq> []"
    by (simp add: js_lit_def trim_def isWhiteSpace_def whitespace_units_def)
  have b: "trim (js_lit ''  '') = []"
    by (simp add: js_lit_def trim_def isWhiteSpace_def whitespace_units_def)
  show ?thesis
    using a b
      addTodo_spec [of "\<lparr>todos = [], inputValue = js_lit '' Buy milk''\<rparr>" 1700000000000]
      addTodo_spec [of "\<lparr>todos = [], inputValue = js_lit ''  ''\<rparr>" 1700000000000]
    by simp
qed

subsection \<open>The listener of the bridge\<close>




subsection \<open>Deleting\<close>

text \<open>
  C3, as the claim states it: \<open>deleteTodo\<close> on a list with a matching item removes exactly
  one item. In \<open>two_same_id\<close> two of the three items carry the id 7, and deleting 7 leaves
  one item: two were removed.
\<close>

theorem deleteTodo_exactly_one_counterexample:
  "count_id 7 (todos two_same_id) = 2
   \<and> length (todos two_same_id) = 3
   \<and> length (todos (deleteTodo 7 two_same_id)) = 1
   \<and> length (todos (deleteTodo 7 two_same_id)) + 1 \<noteq> length (todos two_same_id)"
  by (simp add: two_same_id_def deleteTodo_def count_id_def)

text \<open>
  C3, amended. \<open>deleteTodo i\<close> keeps, in their order, exactly the items whose id is not
  \<open>i\<close>: no item with that id remains, the list gets shorter by the number of items that
  carried it, which is one item when exactly one item carries it; when no item carries it
  the state is unchanged. The input field is not touched.
\<close>

theorem deleteTodo_removes_all_matching:
  "todos (deleteTodo i st) = filter (\<lambda>todo. id' todo \<noteq> i) (todos st)
   \<and> inputValue (deleteTodo i st) = inputValue st
   \<and> count_id i (todos (deleteTodo i st)) = 0
   \<and> length (todos (deleteTodo i st)) + count_id i (todos st) = length (todos st)
   \<and> (count_id i (todos st) = 1 \<longrightarrow>
        length (todos (deleteTodo i st)) + 1 = length (todos st))
   \<and> (count_id i (todos st) = 0 \<longrightarrow> deleteTodo i st = st)"
proof -
  have "count_id i (todos st) = 0 \<Longrightarrow> filter (\<lambda>todo. id' todo \<noteq> i) (todos st) = todos st"
    unfolding count_id_def by (simp add: filter_empty_conv filter_id_conv)
  moreover have "count_id i (filter (\<lambda>todo. id' todo \<noteq> i) (todos st)) = 0"
    unfolding count_id_def by (simp add: filter_empty_conv)
  ultimately show ?thesis
    using length_filter_id [of i "todos st"] by (auto simp: deleteTodo_def)
qed

theorem deleteTodo_removes_all_matching_witness:
  "todos (deleteTodo 8 two_same_id)
     = [\<lparr>id' = 7, text' = js_lit ''a'', completed = False\<rparr>,
        \<lparr>id' = 7, text' = js_lit ''c'', completed = True\<rparr>]
   \<and> length (todos (deleteTodo 8 two_same_id)) + 1 = length (todos two_same_id)
   \<and> deleteTodo 9 two_same_id = two_same_id"
proof -
  have one: "count_id 8 (todos two_same_id) = 1"
    and none: "count_id 9 (todos two_same_id) = 0"
    by (simp_all add: two_same_id_def count_id_def)
  have kept: "filter (\<lambda>todo. id' todo \<noteq> 8) (todos two_same_id)
     = [\<lparr>id' = 7, text' = js_lit ''a'', completed = False\<rparr>,
        \<lparr>id' = 7, text' = js_lit ''c'', completed = True\<rparr>]"
    by (simp add: two_same_id_def)
  have len: "length (todos two_same_id) = 3"
    by (simp add: two_same_id_def)
  show ?thesis
    using one none kept len
      deleteTodo_removes_all_matching [of 8 two_same_id]
      deleteTodo_removes_all_matching [of 9 two_same_id]
    by simp
qed

subsection \<open>The first read of the bridge\<close>

text \<open>
  C4. The claim: on first use the hook reads the field from \<open>window.openai\<close> whenever the
  field is present there, a falsy value included. The code tests the value for truth, not
  the key for presence: with \<open>locale\<close> present and equal to the empty string, the hook
  holds \<open>undefined\<close> after the first read, while the listener, given the same field in an
  event, stores the empty string.
\<close>

theorem useOpenAiGlobal_init_drops_falsy:
  "openai host_with_empty_locale
     = Some \<lparr>globals = [Locale \<mapsto> JStr []], requestDisplayMode = None\<rparr>
   \<and> has_prop Locale [Locale \<mapsto> JStr []]
   \<and> get_prop [Locale \<mapsto> JStr []] Locale = JStr []
   \<and> useOpenAiGlobal_init fns host_with_empty_locale Locale = Inr JUndefined
   \<and> useOpenAiGlobal fns host_with_empty_locale Locale [] = Inr JUndefined
   \<and> useOpenAiGlobal fns host_with_empty_locale Locale [[Locale \<mapsto> JStr []]]
       = Inr (JStr [])"
  by (simp add: host_with_empty_locale_def useOpenAiGlobal_def useOpenAiGlobal_init_def
        openai_opt_index_def openai_index_def get_prop_def has_prop_def handler_def
        setValue_def)

subsection \<open>The footer\<close>

text \<open>
  C5. After any sequence of actions, from any state, the remaining count shown in the
  footer is the number of items that are not completed, and it equals the length of the
  list minus the number of completed items.
\<close>

theorem remaining_count_invariant:
  "int (remaining (App theme displayMode (run st acts)))
     = int (total (App theme displayMode (run st acts)))
       - int (length (filter completed (todos (run st acts))))
   \<and> remaining (App theme displayMode (run st acts))
     = length (filter (\<lambda>t. \<not> completed t) (todos (run st acts)))
   \<and> total (App theme displayMode (run st acts)) = length (todos (run st acts))"
  using remaining_plus_completed [of "todos (run st acts)"] by (simp add: App_def)

theorem remaining_count_invariant_witness:
  "remaining (App JUndefined JUndefined
       (run initial_state [SetInputValue (js_lit ''a''), AddTodo 1, SetInputValue (js_lit ''b''),
                           AddTodo 2, ToggleTodo 1, SetInputValue (js_lit ''c''), AddTodo 3,
                           DeleteTodo 2])) = 1
   \<and> total (App JUndefined JUndefined
       (run initial_state [SetInputValue (js_lit ''a''), AddTodo 1, SetInputValue (js_lit ''b''),
                           AddTodo 2, ToggleTodo 1, SetInputValue (js_lit ''c''), AddTodo 3,
                           DeleteTodo 2])) = 2"
  using remaining_count_invariant [of JUndefined JUndefined initial_state
          "[SetInputValue (js_lit ''a''), AddTodo 1, SetInputValue (js_lit ''b''),
            AddTodo 2, ToggleTodo 1, SetInputValue (js_lit ''c''), AddTodo 3, DeleteTodo 2]"]
  by (simp add: run_def initial_state_def addTodo_def toggleTodo_def deleteTodo_def App_def
        js_lit_def trim_def isWhiteSpace_def whitespace_units_def)

subsection \<open>Toggling\<close>

text \<open>
  C6. Toggling the same id twice gives back the state, so every item's \<open>completed\<close> flag
  has its original value; toggling an id that no item carries leaves the state equal to
  what it was.
\<close>

theorem toggleTodo_involution:
  "toggleTodo i (toggleTodo i st) = st
   \<and> map completed (todos (toggleTodo i (toggleTodo i st))) = map completed (todos st)
   \<and> ((\<forall>todo\<in>set (todos st). id' todo \<noteq> i) \<longrightarrow> toggleTodo i st = st)"
proof -
  have twice: "toggleTodo i (toggleTodo i st) = st"
    by (simp add: toggleTodo_def comp_def map_idI)
  have none: "(\<forall>todo\<in>set (todos st). id' todo \<noteq> i) \<longrightarrow> toggleTodo i st = st"
    by (simp add: toggleTodo_def map_idI)
  from twice none show ?thesis by simp
qed

theorem toggleTodo_involution_witness:
  "toggleTodo 7 (toggleTodo 7 two_same_id) = two_same_id
   \<and> toggleTodo 9 two_same_id = two_same_id"
proof -
  have "\<forall>todo\<in>set (todos two_same_id). id' todo \<noteq> 9"
    by (simp add: two_same_id_def)
  then show ?thesis
    using toggleTodo_involution [of 7 two_same_id] toggleTodo_involution [of 9 two_same_id]
    by simp
qed

subsection \<open>The Expand button\<close>

text \<open>
  C7. The "Expand" button is hidden exactly when the display mode is the string
  \<open>"fullscreen"\<close>; with \<open>undefined\<close>, \<open>"inline"\<close>, \<open>"pip"\<close> or any other value it is shown.
\<close>

theorem expand_hidden_iff_fullscreen:
  "(\<not> expand_shown (App theme displayMode st)) = (displayMode = JStr (js_lit ''fullscreen''))
   \<and> expand_shown (App theme JUndefined st)
   \<and> expand_shown (App theme (JStr (js_lit ''inline'')) st)
   \<and> expand_shown (App theme (JStr (js_lit ''pip'')) st)"
  by (simp add: App_def js_lit_def)

theorem expand_hidden_iff_fullscreen_witness:
  "\<not> expand_shown (App JUndefined (JStr (js_lit ''fullscreen'')) initial_state)
   \<and> expand_shown (App JUndefined JNull initial_state)"
  using expand_hidden_iff_fullscreen [of JUndefined "JStr (js_lit ''fullscreen'')" initial_state]
        expand_hidden_iff_fullscreen [of JUndefined JNull initial_state]
  by simp

subsection \<open>Requesting fullscreen\<close>

text \<open>
  C8. \<open>requestFullscreen\<close>: with \<open>window.openai\<close> absent, or present without
  \<open>requestDisplayMode\<close>, nothing is called and nothing is thrown; with the function present
  the one call made is \<open>requestDisplayMode\<close> with mode fullscreen, and the outcome is the
  same whatever promise the host returns. In no case does the call throw.
\<close>

theorem requestFullscreen_guarded:
  "(openai w = None \<longrightarrow> requestFullscreen w = Inr [])
   \<and> (openai w = Some h \<and> requestDisplayMode h = None \<longrightarrow> requestFullscreen w = Inr [])
   \<and> (openai w = Some h \<and> requestDisplayMode h = Some f \<longrightarrow>
        requestFullscreen w = Inr [RequestDisplayMode Fullscreen])
   \<and> requestFullscreen w \<noteq> Inl e"
  by (auto simp: requestFullscreen_def split: option.splits)

theorem requestFullscreen_guarded_witness:
  "requestFullscreen \<lparr>openai = None\<rparr> = Inr []
   \<and> requestFullscreen \<lparr>openai = Some \<lparr>globals = Map.empty, requestDisplayMode = None\<rparr>\<rparr> = Inr []
   \<and> requestFullscreen
        \<lparr>openai = Some \<lparr>globals = Map.empty, requestDisplayMode = Some (\<lambda>m. Rejected)\<rparr>\<rparr>
       = Inr [RequestDisplayMode Fullscreen]"
  using requestFullscreen_guarded
          [of "\<lparr>openai = None\<rparr>" "\<lparr>globals = Map.empty, requestDisplayMode = None\<rparr>"]
        requestFullscreen_guarded
          [of "\<lparr>openai = Some \<lparr>globals = Map.empty, requestDisplayMode = None\<rparr>\<rparr>"
              "\<lparr>globals = Map.empty, requestDisplayMode = None\<rparr>"]
        requestFullscreen_guarded
          [of "\<lparr>openai = Some \<lparr>globals = Map.empty, requestDisplayMode = Some (\<lambda>m. Rejected)\<rparr>\<rparr>"
              "\<lparr>globals = Map.empty, requestDisplayMode = Some (\<lambda>m. Rejected)\<rparr>"
              "\<lambda>m. Rejected"]
  by simp

subsection \<open>What toggling leaves alone\<close>

text \<open>
  C9. \<open>toggleTodo\<close> keeps the length of the list, keeps the id and the text of the item at
  every position (so the order of the items), and leaves every item whose id differs from
  the argument as it was. The input field is not touched.
\<close>

theorem toggleTodo_frame:
  "length (todos (toggleTodo i st)) = length (todos st)
   \<and> map id' (todos (toggleTodo i st)) = map id' (todos st)
   \<and> map text' (todos (toggleTodo i st)) = map text' (todos st)
   \<and> (\<forall>k < length (todos st).
        id' (todos st ! k) \<noteq> i \<longrightarrow> todos (toggleTodo i st) ! k = todos st ! k)
   \<and> inputValue (toggleTodo i st) = inputValue st"
  by (simp add: toggleTodo_def comp_def)

theorem toggleTodo_frame_witness:
  "length (todos (toggleTodo 7 two_same_id)) = 3
   \<and> map id' (todos (toggleTodo 7 two_same_id)) = [7, 8, 7]
   \<and> map text' (todos (toggleTodo 7 two_same_id)) = [js_lit ''a'', js_lit ''b'', js_lit ''c'']
   \<and> todos (toggleTodo 7 two_same_id) ! 1 = \<lparr>id' = 8, text' = js_lit ''b'', completed = False\<rparr>"
proof -
  have "(1::nat) < length (todos two_same_id) \<and> id' (todos two_same_id ! 1) \<noteq> 7"
    by (simp add: two_same_id_def)
  then show ?thesis
    using toggleTodo_frame [of 7 two_same_id] by (simp add: two_same_id_def)
qed

subsection \<open>Toggling an id that several items carry\<close>

text \<open>
  C10. \<open>toggleTodo i\<close> flips the \<open>completed\<close> flag of the item at every position whose id
  is \<open>i\<close>, and changes nothing else of it: when several items carry the id, all of them
  are flipped.
\<close>

theorem toggleTodo_flips_all_matching:
  "\<forall>k < length (todos st).
     id' (todos st ! k) = i \<longrightarrow>
       todos (toggleTodo i st) ! k = (todos st ! k)\<lparr>completed := \<not> completed (todos st ! k)\<rparr>"
  by (simp add: toggleTodo_def)

theorem toggleTodo_flips_all_matching_witness:
  "count_id 7 (todos two_same_id) = 2
   \<and> todos (toggleTodo 7 two_same_id) ! 0 = \<lparr>id' = 7, text' = js_lit ''a'', completed = True\<rparr>
   \<and> todos (toggleTodo 7 two_same_id) ! 2 = \<lparr>id' = 7, text' = js_lit ''c'', completed = False\<rparr>"
proof -
  have "(0::nat) < length (todos two_same_id) \<and> id' (todos two_same_id ! 0) = 7"
    and "(2::nat) < length (todos two_same_id) \<and> id' (todos two_same_id ! 2) = 7"
    by (simp_all add: two_same_id_def)
  then show ?thesis
    using toggleTodo_flips_all_matching [of two_same_id 7]
    by (simp add: two_same_id_def count_id_def)
qed

end
